theory Spec2Isabelle
  imports Complex_Main "HOL-Library.Char_ord" "HOL-Library.List_Lexorder"
    "HOL-Library.Product_Lexorder" "HOL-Library.Sublist"
begin

section \<open>Data model\<close>

text \<open>
  The engine of \<^verbatim>\<open>src/main.py\<close> works on Python values: floats, integers, texts,
  lists and dictionaries, none of them checked for its kind before it is used.

  A float is an IEEE double: a finite number, an infinity or NaN. The two zeros are
  not told apart: the program never prints a zero result of a subtraction with its
  sign and never divides by one.
\<close>

datatype double = Finite real | PosInf | NegInf | NaN

text \<open>
  What \<^verbatim>\<open>yaml.safe_load\<close> builds from the core of a document, and what a cell of
  the input table holds: null, truth values, integers of any size, floats, texts,
  sequences and mappings. Of a mapping the entries under text keys are kept; every
  subscript and membership test of the program is made with a text, which equals no
  key of another kind. Timestamps, binary data and sets of a document are left out.
\<close>

datatype pyval =
    PNone
  | PBool bool
  | PInt int
  | PFloat double
  | PStr string
  | PList "pyval list"
  | PDict "string \<Rightarrow> pyval option"

text \<open>The exceptions that can leave the modelled code.\<close>

datatype error =
    SystemExit nat | ParseError | KeyError | TypeError | ValueError | OverflowError

text \<open>
  The attributes of a \<^verbatim>\<open>QualityControlEngine\<close> object. \<^verbatim>\<open>rules\<close> is the parsed
  document, whatever it is. Only \<^verbatim>\<open>drift_alerts\<close> is ever assigned after
  construction.
\<close>

record engine =
  db_path :: string
  rules :: pyval
  drift_alerts :: "string list"

text \<open>
  One row of the input table, after \<^verbatim>\<open>pd.to_datetime\<close>: the date is a timestamp in
  nanoseconds, machine and metric are texts, and the value is the cell as
  \<^verbatim>\<open>iterrows\<close> hands it over: a float (NaN for a blank cell), an integer or a text.
\<close>

record row =
  Date :: int
  Machine_ID :: string
  Metric :: string
  Value :: pyval


section \<open>Float arithmetic\<close>

definition round_half_even :: "real \<Rightarrow> int" where
  "round_half_even x =
     (let f = \<lfloor>x\<rfloor>; d = x - of_int f
      in if d < 1 / 2 then f
         else if 1 / 2 < d then f + 1
         else if even f then f else f + 1)"

text \<open>
  The double nearest to a real number, ties to the even significand: 53 significant
  bits, the smallest exponent that of the subnormal numbers, and an infinity where
  the rounded magnitude reaches \<open>2\<^sup>1\<^sup>0\<^sup>2\<^sup>4\<close>.
\<close>

definition round_to_double :: "real \<Rightarrow> double" where
  "round_to_double x =
     (if x = 0 then Finite 0
      else
        let e = max \<lfloor>log 2 \<bar>x\<bar>\<rfloor> (- 1022);
            ulp = 2 powi (e - 52);
            r = of_int (round_half_even (x / ulp)) * ulp
        in if 2 ^ 1024 \<le> r then PosInf
           else if r \<le> - (2 ^ 1024) then NegInf
           else Finite r)"

text \<open>\<^verbatim>\<open>a - b\<close>, \<^verbatim>\<open>abs(a)\<close> and \<^verbatim>\<open>a > b\<close> on floats.\<close>

fun fsub :: "double \<Rightarrow> double \<Rightarrow> double" where
  "fsub NaN b = NaN"
| "fsub a NaN = NaN"
| "fsub (Finite a) (Finite b) = round_to_double (a - b)"
| "fsub (Finite a) PosInf = NegInf"
| "fsub (Finite a) NegInf = PosInf"
| "fsub PosInf PosInf = NaN"
| "fsub PosInf b = PosInf"
| "fsub NegInf NegInf = NaN"
| "fsub NegInf b = NegInf"

fun fabs :: "double \<Rightarrow> double" where
  "fabs (Finite a) = Finite \<bar>a\<bar>"
| "fabs PosInf = PosInf"
| "fabs NegInf = PosInf"
| "fabs NaN = NaN"

fun double_gt :: "double \<Rightarrow> double \<Rightarrow> bool" where
  "double_gt NaN b = False"
| "double_gt a NaN = False"
| "double_gt (Finite a) (Finite b) = (b < a)"
| "double_gt (Finite a) PosInf = False"
| "double_gt (Finite a) NegInf = True"
| "double_gt PosInf PosInf = False"
| "double_gt PosInf b = True"
| "double_gt NegInf b = False"


section \<open>Numbers\<close>

text \<open>
  The numbers of Python: integers (the truth values among them, as 0 and 1) and
  floats. \<^verbatim>\<open>float(n)\<close> of an integer is the nearest double, and raises where that
  would be an infinity. A comparison of an integer with a float compares the exact
  values.
\<close>

datatype number = NInt int | NFloat double

fun number_of :: "pyval \<Rightarrow> number option" where
  "number_of (PBool b) = Some (NInt (if b then 1 else 0))"
| "number_of (PInt n) = Some (NInt n)"
| "number_of (PFloat f) = Some (NFloat f)"
| "number_of v = None"

fun float_of :: "number \<Rightarrow> error + double" where
  "float_of (NFloat f) = Inr f"
| "float_of (NInt n) =
     (case round_to_double (of_int n) of
        Finite r \<Rightarrow> Inr (Finite r)
      | _ \<Rightarrow> Inl OverflowError)"

fun exact :: "number \<Rightarrow> double" where
  "exact (NInt n) = Finite (of_int n)"
| "exact (NFloat f) = f"

text \<open>\<^verbatim>\<open>value - target\<close>: integers subtract exactly; with a float on either side both
  sides become floats; anything that is not a number raises \<^verbatim>\<open>TypeError\<close>.\<close>

definition py_sub :: "pyval \<Rightarrow> pyval \<Rightarrow> error + number" where
  "py_sub a b =
     (case (number_of a, number_of b) of
        (Some (NInt m), Some (NInt n)) \<Rightarrow> Inr (NInt (m - n))
      | (Some x, Some y) \<Rightarrow>
          (case float_of x of
             Inl e \<Rightarrow> Inl e
           | Inr fx \<Rightarrow>
               (case float_of y of
                  Inl e \<Rightarrow> Inl e
                | Inr fy \<Rightarrow> Inr (NFloat (fsub fx fy))))
      | _ \<Rightarrow> Inl TypeError)"

fun num_abs :: "number \<Rightarrow> number" where
  "num_abs (NInt n) = NInt \<bar>n\<bar>"
| "num_abs (NFloat f) = NFloat (fabs f)"

text \<open>\<^verbatim>\<open>diff > tol\<close> with a number on the left.\<close>

definition num_gt :: "number \<Rightarrow> pyval \<Rightarrow> error + bool" where
  "num_gt diff tol =
     (case number_of tol of
        None \<Rightarrow> Inl TypeError
      | Some t \<Rightarrow> Inr (double_gt (exact diff) (exact t)))"


section \<open>Rendering numbers\<close>

text \<open>
  \<^verbatim>\<open>f"{x:.2f}"\<close> and \<^verbatim>\<open>f"{x:.3f}"\<close> of a finite float: the exact value rounded to
  the given number of decimals, ties to even, the sign of the unrounded value in front.
\<close>

definition digit_char :: "nat \<Rightarrow> char" where
  "digit_char d = ''0123456789'' ! d"

fun string_of_nat :: "nat \<Rightarrow> string" where
  "string_of_nat n =
     (if n < 10 then [digit_char n]
      else string_of_nat (n div 10) @ [digit_char (n mod 10)])"

declare string_of_nat.simps [simp del]

definition format_f :: "nat \<Rightarrow> real \<Rightarrow> string" where
  "format_f p x =
     (let n = nat (round_half_even (\<bar>x\<bar> * 10 ^ p));
          whole = string_of_nat (n div 10 ^ p);
          frac = string_of_nat (n mod 10 ^ p)
      in (if x < 0 then ''-'' else '''') @ whole @
         (if p = 0 then ''''
          else ''.'' @ replicate (p - length frac) (CHR ''0'') @ frac))"


text \<open>The same of any float, and of a number: an integer is made a float first.\<close>

fun format_double :: "nat \<Rightarrow> double \<Rightarrow> string" where
  "format_double p (Finite x) = format_f p x"
| "format_double p PosInf = ''inf''"
| "format_double p NegInf = ''-inf''"
| "format_double p NaN = ''nan''"

definition num_format :: "nat \<Rightarrow> number \<Rightarrow> error + string" where
  "num_format p n =
     (case float_of n of Inl e \<Rightarrow> Inl e | Inr f \<Rightarrow> Inr (format_double p f))"


section \<open>Construction of the engine\<close>

text \<open>
  What \<^verbatim>\<open>open(config_path)\<close> followed by \<^verbatim>\<open>yaml.safe_load\<close> can give:
  no such file, a parser exception, or the parsed document.
\<close>

datatype config_source = FileNotFound | Unparsable | Document pyval

text \<open>
  \<^verbatim>\<open>QualityControlEngine.__init__\<close>. A missing file is caught and ends the process
  with status 1; a parser exception is not caught here. The document is stored as it
  is. \<^verbatim>\<open>init_database\<close> touches the history database only and catches its own
  errors, so it leaves the object as constructed.
\<close>

definition QualityControlEngine_init :: "config_source \<Rightarrow> string \<Rightarrow> error + engine" where
  "QualityControlEngine_init src db =
     (case src of
        FileNotFound \<Rightarrow> Inl (SystemExit 1)
      | Unparsable \<Rightarrow> Inl ParseError
      | Document doc \<Rightarrow> Inr \<lparr>db_path = db, rules = doc, drift_alerts = []\<rparr>)"


section \<open>Compliance check\<close>

text \<open>
  \<^verbatim>\<open>key in container\<close> with a text for a key: the keys of a dictionary, the elements
  of a list, the parts of a text; anything else is not iterable.
\<close>

fun py_in :: "string \<Rightarrow> pyval \<Rightarrow> error + bool" where
  "py_in key (PDict d) = Inr (d key \<noteq> None)"
| "py_in key (PList xs) = Inr (PStr key \<in> set xs)"
| "py_in key (PStr s) = Inr (sublist key s)"
| "py_in key v = Inl TypeError"

text \<open>\<^verbatim>\<open>container[key]\<close> with a text for a key: the entry of a dictionary, or
  \<^verbatim>\<open>KeyError\<close>; lists and texts want integers, the rest takes no subscript.\<close>

fun py_getitem :: "pyval \<Rightarrow> string \<Rightarrow> error + pyval" where
  "py_getitem (PDict d) key = (case d key of None \<Rightarrow> Inl KeyError | Some v \<Rightarrow> Inr v)"
| "py_getitem v key = Inl TypeError"

text \<open>
  \<^verbatim>\<open>machine in self.rules and metric in self.rules[machine]\<close>, the test of line 181,
  whose negation is the test of line 87.
\<close>

definition configured :: "engine \<Rightarrow> string \<Rightarrow> string \<Rightarrow> error + bool" where
  "configured self machine metric =
     (case py_in machine (rules self) of
        Inl e \<Rightarrow> Inl e
      | Inr found \<Rightarrow>
          if \<not> found then Inr False
          else
            (case py_getitem (rules self) machine of
               Inl e \<Rightarrow> Inl e
             | Inr per_machine \<Rightarrow> py_in metric per_machine))"

text \<open>
  \<^verbatim>\<open>QualityControlEngine.check_compliance\<close>. It reads \<^verbatim>\<open>self.rules\<close> and assigns
  nothing; the warning it logs for a missing rule goes to the process log, which is
  not part of the model.
\<close>

definition check_compliance :: "engine \<Rightarrow> string \<Rightarrow> string \<Rightarrow> pyval \<Rightarrow> error + string" where
  "check_compliance self machine metric val =
     (case configured self machine metric of
        Inl e \<Rightarrow> Inl e
      | Inr found \<Rightarrow>
          if \<not> found then Inr ''UNKNOWN_CONFIG''
          else
            (case py_getitem (rules self) machine of
               Inl e \<Rightarrow> Inl e
             | Inr per_machine \<Rightarrow>
            (case py_getitem per_machine metric of
               Inl e \<Rightarrow> Inl e
             | Inr rule \<Rightarrow>
            (case py_getitem rule ''target'' of
               Inl e \<Rightarrow> Inl e
             | Inr target \<Rightarrow>
            (case py_getitem rule ''tolerance_abs'' of
               Inl e \<Rightarrow> Inl e
             | Inr tol \<Rightarrow>
            (case py_sub val target of
               Inl e \<Rightarrow> Inl e
             | Inr d \<Rightarrow>
                 (let diff = num_abs d
                  in case num_gt diff tol of
                       Inl e \<Rightarrow> Inl e
                     | Inr gt \<Rightarrow>
                         if gt then
                           (case num_format 2 diff of
                              Inl e \<Rightarrow> Inl e
                            | Inr dev \<Rightarrow> Inr (''FAIL (Dev: '' @ dev @ '')''))
                         else Inr ''PASS'')))))))"


section \<open>Drift analysis\<close>

text \<open>
  \<^verbatim>\<open>(dates - dates.min()).dt.days\<close>: for every date the whole days elapsed since the
  earliest date of the series. The differences are never negative, so the whole days
  of a difference are its quotient by the length of a day.
\<close>

definition ns_per_day :: int where
  "ns_per_day = 86400000000000"

definition day_offsets :: "int list \<Rightarrow> int list" where
  "day_offsets dates = map (\<lambda>d. (d - Min (set dates)) div ns_per_day) dates"

definition mean :: "real list \<Rightarrow> real" where
  "mean xs = sum_list xs / real (length xs)"

text \<open>
  \<^verbatim>\<open>linregress\<close> is imported from \<^verbatim>\<open>scipy.stats\<close>; its code is not part of the
  repository. The engine is therefore modelled over any regression function: it takes
  the x and y values and raises, or returns a slope, or returns NaN (\<open>None\<close>) for
  the slope. Of the five results of the call only the slope is used. The engine does
  not look at the y values, so their kind is left open.
\<close>

type_synonym 'v regression = "int list \<Rightarrow> 'v list \<Rightarrow> error + real option"

text \<open>
  The slope of \<^verbatim>\<open>scipy.stats.linregress(x, y)\<close> for finite numbers, as the library's
  current releases compute it, the library's own arithmetic taken as exact: empty input and an input whose x values are all identical are rejected
  with \<^verbatim>\<open>ValueError\<close>, as are two inputs of different lengths; otherwise, with
  \<^verbatim>\<open>ssxm, ssxym, _, ssym = np.cov(x, y, bias=1).flat\<close>, the slope is
  \<^verbatim>\<open>ssxym / ssxm\<close>. For a single point the quotient is 0 / 0, which is NaN.
\<close>

definition scipy_linregress :: "real regression" where
  "scipy_linregress x y =
     (if x = [] \<or> y = [] then Inl ValueError
      else if Max (set x) = Min (set x) \<and> 1 < length x then Inl ValueError
      else if length x \<noteq> length y then Inl ValueError
      else
        let xs = map real_of_int x;
            xmean = mean xs;
            ymean = mean y;
            ssxm = mean (map (\<lambda>a. (a - xmean) * (a - xmean)) xs);
            ssxym = mean (map (\<lambda>(a, b). (a - xmean) * (b - ymean)) (zip xs y))
        in if ssxm = 0 then Inr None else Inr (Some (ssxym / ssxm)))"

text \<open>
  The same for a column of cells. A cell that is not a number makes the library's
  arithmetic raise \<^verbatim>\<open>TypeError\<close>; a NaN or an infinity among the values makes the
  slope NaN.
\<close>

fun is_number :: "pyval \<Rightarrow> bool" where
  "is_number (PBool b) = True"
| "is_number (PInt n) = True"
| "is_number (PFloat f) = True"
| "is_number v = False"

fun finite_value :: "pyval \<Rightarrow> real option" where
  "finite_value (PBool b) = Some (if b then 1 else 0)"
| "finite_value (PInt n) = Some (of_int n)"
| "finite_value (PFloat (Finite r)) = Some r"
| "finite_value v = None"

definition scipy_linregress_column :: "pyval regression" where
  "scipy_linregress_column x y =
     (if x = [] \<or> y = [] then Inl ValueError
      else if Max (set x) = Min (set x) \<and> 1 < length x then Inl ValueError
      else if \<not> list_all is_number y then Inl TypeError
      else if length x \<noteq> length y then Inl ValueError
      else if \<not> list_all (\<lambda>c. finite_value c \<noteq> None) y then Inr None
      else scipy_linregress x (List.map_filter finite_value y))"

text \<open>Lines 109 and 110 of \<^verbatim>\<open>analyze_drift\<close>: the day offsets and the fit.\<close>

definition fitted_slope :: "'v regression \<Rightarrow> int list \<Rightarrow> 'v list \<Rightarrow> error + real option" where
  "fitted_slope linregress dates vals = linregress (day_offsets dates) vals"

text \<open>
  \<^verbatim>\<open>QualityControlEngine.analyze_drift\<close>. The method returns nothing in every case;
  what it does is append to \<^verbatim>\<open>self.drift_alerts\<close>, so the model returns the engine as
  the call leaves it. An exception of the fit is not caught. A NaN slope compares false
  with the threshold.
\<close>

definition analyze_drift ::
    "'v regression \<Rightarrow> engine \<Rightarrow> int list \<Rightarrow> 'v list \<Rightarrow> string \<Rightarrow> string \<Rightarrow> error + engine"
    where
  "analyze_drift linregress self dates vals machine metric =
     (if length vals < 5 then Inr self
      else
        case fitted_slope linregress dates vals of
          Inl e \<Rightarrow> Inl e
        | Inr None \<Rightarrow> Inr self
        | Inr (Some slope) \<Rightarrow>
            if 1 / 10 < \<bar>slope\<bar> then
              let alert_msg = ''['' @ machine @ ''] '' @ metric @
                    '': Significant Drift detected (Slope: '' @ format_f 3 slope @ ''/day)''
              in Inr (self\<lparr>drift_alerts := drift_alerts self @ [alert_msg]\<rparr>)
            else Inr self)"


section \<open>The audit run\<close>

text \<open>The loop of lines 168 to 173: one status per row, appended in row order. An
  exception of a check ends the loop, and the run.\<close>

fun compliance_loop :: "engine \<Rightarrow> row list \<Rightarrow> error + string list" where
  "compliance_loop engine [] = Inr []"
| "compliance_loop engine (r # rs) =
     (case check_compliance engine (Machine_ID r) (Metric r) (Value r) of
        Inl e \<Rightarrow> Inl e
      | Inr status \<Rightarrow>
          (case compliance_loop engine rs of
             Inl e \<Rightarrow> Inl e
           | Inr results \<Rightarrow> Inr (status # results)))"

text \<open>
  \<^verbatim>\<open>df.groupby(['Machine_ID', 'Metric'])\<close>: the groups in ascending order of their
  keys, each with its rows in table order.
\<close>

definition groupby :: "row list \<Rightarrow> ((string \<times> string) \<times> row list) list" where
  "groupby df =
     map (\<lambda>key. (key, filter (\<lambda>r. (Machine_ID r, Metric r) = key) df))
       (sort (remdups (map (\<lambda>r. (Machine_ID r, Metric r)) df)))"

text \<open>
  The loop of lines 179 to 183. \<^verbatim>\<open>generate_plot\<close> draws a chart and catches every
  exception of its own; it leaves the engine as it is.
\<close>

fun trend_loop ::
    "pyval regression \<Rightarrow> engine \<Rightarrow> ((string \<times> string) \<times> row list) list \<Rightarrow> error + engine"
    where
  "trend_loop linregress engine [] = Inr engine"
| "trend_loop linregress engine (((machine, metric), group_data) # groups) =
     (case configured engine machine metric of
        Inl e \<Rightarrow> Inl e
      | Inr found \<Rightarrow>
          if found then
            (case analyze_drift linregress engine (map Date group_data) (map Value group_data)
                    machine metric of
               Inl e \<Rightarrow> Inl e
             | Inr engine' \<Rightarrow> trend_loop linregress engine' groups)
          else trend_loop linregress engine groups)"

text \<open>What reading the input table can give: an exception, or the rows.\<close>

datatype table_source = Unreadable | Table "row list"

text \<open>
  \<^verbatim>\<open>main\<close>, up to the point where the results are handed to the writers: the
  statuses of the rows (the new column \<^verbatim>\<open>QC_Status\<close>) and the alerts. Every
  exception while loading ends the process with status 1; an exception of the two loops
  is not caught.
\<close>

definition main ::
    "pyval regression \<Rightarrow> config_source \<Rightarrow> table_source \<Rightarrow> error + string list \<times> string list"
    where
  "main linregress config input =
     (case QualityControlEngine_init config ''qc_history.db'' of
        Inl e \<Rightarrow> Inl (SystemExit 1)
      | Inr engine \<Rightarrow>
          (case input of
             Unreadable \<Rightarrow> Inl (SystemExit 1)
           | Table df \<Rightarrow>
               (case compliance_loop engine df of
                  Inl e \<Rightarrow> Inl e
                | Inr results \<Rightarrow>
                    (case trend_loop linregress engine (groupby df) of
                       Inl e \<Rightarrow> Inl e
                     | Inr engine' \<Rightarrow> Inr (results, drift_alerts engine')))))"


section \<open>The regression as the specification words it\<close>


text \<open>All records of a group on one day: no date is a whole day or more after the
  earliest, so every x-coordinate is 0.\<close>

definition same_day :: "int list \<Rightarrow> bool" where
  "same_day dates = (\<forall>d \<in> set dates. (d - Min (set dates)) div ns_per_day = 0)"

text \<open>A real number that is a double: an integer of fewer than 54 bits times a power
  of two within the exponent range.\<close>

definition is_double :: "real \<Rightarrow> bool" where
  "is_double x =
     (\<exists>m q. x = of_int m * 2 powi q \<and> \<bar>m\<bar> < 2 ^ 53 \<and> - 1074 \<le> q \<and> q \<le> 971)"

text \<open>A scalar of the configuration that is the number \<open>t\<close>: written as a float, or
  as an integer that is a double, so that making it a float changes nothing.\<close>

definition holds_number :: "pyval \<Rightarrow> real \<Rightarrow> bool" where
  "holds_number p t =
     (p = PFloat (Finite t) \<or> (\<exists>n. p = PInt n \<and> t = of_int n \<and> is_double t))"


section \<open>Example inputs\<close>

text \<open>
  The rule of the specification's scenarios (target 100, tolerance 2, written as
  integers), the same rule with a negative tolerance and with a text for a target, a
  rule whose target is an integer that is no double, and a rule for the drifting scanner
  of \<^verbatim>\<open>generate_data.py\<close>. Dates are midnights counted from 2023-01-01.
\<close>

definition dose_rule :: pyval where
  "dose_rule =
     PDict [''target'' \<mapsto> PInt 100, ''tolerance_abs'' \<mapsto> PInt 2, ''unit'' \<mapsto> PStr ''%'']"

definition linac_config :: pyval where
  "linac_config = PDict [''Linac_1'' \<mapsto> PDict [''Dose_Output'' \<mapsto> dose_rule]]"

definition linac_engine :: engine where
  "linac_engine = \<lparr>db_path = ''qc_history.db'', rules = linac_config, drift_alerts = []\<rparr>"

definition negative_rule :: pyval where
  "negative_rule =
     PDict [''target'' \<mapsto> PInt 100, ''tolerance_abs'' \<mapsto> PInt (- 1), ''unit'' \<mapsto> PStr ''%'']"

definition negative_config :: pyval where
  "negative_config = PDict [''Linac_1'' \<mapsto> PDict [''Dose_Output'' \<mapsto> negative_rule]]"

definition negative_engine :: engine where
  "negative_engine =
     \<lparr>db_path = ''qc_history.db'', rules = negative_config, drift_alerts = []\<rparr>"

definition text_rule :: pyval where
  "text_rule =
     PDict [''target'' \<mapsto> PStr ''100'', ''tolerance_abs'' \<mapsto> PInt 2, ''unit'' \<mapsto> PStr ''%'']"

definition text_config :: pyval where
  "text_config = PDict [''Linac_1'' \<mapsto> PDict [''Dose_Output'' \<mapsto> text_rule]]"




definition water_rule :: pyval where
  "water_rule =
     PDict [''target'' \<mapsto> PInt 0, ''tolerance_abs'' \<mapsto> PInt 5, ''unit'' \<mapsto> PStr ''HU'']"

definition ct_config :: pyval where
  "ct_config = PDict [''CT_Scanner_A'' \<mapsto> PDict [''Water_HU'' \<mapsto> water_rule]]"

definition ct_engine :: engine where
  "ct_engine = \<lparr>db_path = ''qc_history.db'', rules = ct_config, drift_alerts = []\<rparr>"

definition empty_engine :: engine where
  "empty_engine = \<lparr>db_path = ''qc_history.db'', rules = PNone, drift_alerts = []\<rparr>"

definition day :: "int \<Rightarrow> int" where
  "day n = 1672531200000000000 + n * 86400000000000"

definition dose_row :: "int \<Rightarrow> real \<Rightarrow> row" where
  "dose_row n v =
     \<lparr>Date = day n, Machine_ID = ''Linac_1'', Metric = ''Dose_Output'',
      Value = PFloat (Finite v)\<rparr>"

definition unknown_row :: row where
  "unknown_row =
     \<lparr>Date = day 0, Machine_ID = ''MachineX'', Metric = ''MetricY'',
      Value = PFloat (Finite 7)\<rparr>"

definition mixed_table :: "row list" where
  "mixed_table = [dose_row 0 (209 / 2), unknown_row, dose_row 1 (401 / 4)]"

text \<open>Five days on which the value rises by one a day; five steady readings, and a
  table that has them all on one day; four readings with a strong trend; five
  readings of one evening and the small hours of the next day.\<close>

definition ramp_dates :: "int list" where
  "ramp_dates = [day 0, day 1, day 2, day 3, day 4]"

definition ramp_values :: "real list" where
  "ramp_values = [0, 1, 2, 3, 4]"

definition one_day_dates :: "int list" where
  "one_day_dates = [day 0, day 0, day 0, day 0, day 0]"

definition steady_values :: "real list" where
  "steady_values = [100, 101, 99, 101, 100]"

definition one_day_table :: "row list" where
  "one_day_table =
     [dose_row 0 100, dose_row 0 101, dose_row 0 99, dose_row 0 101, dose_row 0 100]"

definition short_dates :: "int list" where
  "short_dates = [day 0, day 1, day 2, day 3]"

definition short_values :: "real list" where
  "short_values = [0, 10, 20, 30]"




section \<open>Float arithmetic: rounding\<close>

lemma round_half_even_of_int: "round_half_even (of_int k) = k"
  by (simp add: round_half_even_def)

lemma two_powr_int: "(2::real) powr real_of_int k = 2 powi k"
  by (rule powr_real_of_int') simp_all


lemma floor_log2_less:
  assumes "0 < x" and "x < 2 powi k"
  shows "\<lfloor>log 2 x\<rfloor> < k"
proof -
  have "log 2 x < real_of_int k"
    using assms two_powr_int [of k] by (simp add: log_less_iff)
  then show ?thesis by (simp add: floor_less_iff)
qed

lemma round_to_double_zero: "round_to_double 0 = Finite 0"
  by (simp add: round_to_double_def)

lemma round_to_double_exact:
  assumes "is_double x"
  shows "round_to_double x = Finite x"
proof (cases "x = 0")
  case True
  then show ?thesis by (simp add: round_to_double_def)
next
  case False
  from assms obtain m q where x: "x = of_int m * 2 powi q"
    and m: "\<bar>m\<bar> < 2 ^ 53" and q: "- 1074 \<le> q" "q \<le> 971"
    by (auto simp: is_double_def)
  have pos: "0 < \<bar>x\<bar>" using False by simp
  have absx: "\<bar>x\<bar> = real_of_int \<bar>m\<bar> * 2 powi q"
    by (simp add: x abs_mult)
  have "real_of_int \<bar>m\<bar> < 2 ^ 53"
    using m by (metis of_int_less_iff of_int_numeral of_int_power)
  then have "\<bar>x\<bar> < 2 ^ 53 * 2 powi q"
    unfolding absx by (intro mult_strict_right_mono) simp_all
  also have "(2::real) ^ 53 * 2 powi q = 2 powi (q + 53)"
    by (simp add: power_int_add)
  finally have lt: "\<bar>x\<bar> < 2 powi (q + 53)" .
  have le_top: "(2::real) powi (q + 53) \<le> 2 powi 1024"
    using q(2) by (intro power_int_increasing) simp_all
  define e where "e = max \<lfloor>log 2 \<bar>x\<bar>\<rfloor> (- 1022)"
  define u where "u = e - 52"
  have "\<lfloor>log 2 \<bar>x\<bar>\<rfloor> < q + 53" using pos lt by (rule floor_log2_less)
  then have u_le: "u \<le> q" using q(1) by (simp add: u_def e_def)
  define k where "k = m * 2 ^ nat (q - u)"
  have parts: "(2::real) powi q = 2 powi (q - u) * 2 powi u"
    by (simp flip: power_int_add)
  have exp_nat: "(2::real) powi (q - u) = 2 ^ nat (q - u)"
    using u_le by (simp add: power_int_def)
  have ulp_pos: "(0::real) < 2 powi u" by simp
  have quot: "x / 2 powi u = of_int k"
    using ulp_pos by (simp add: x parts exp_nat k_def)
  have again: "of_int k * 2 powi u = x"
    using quot ulp_pos by (simp add: field_simps)
  have r: "of_int (round_half_even (x / 2 powi u)) * 2 powi u = x"
    by (simp add: quot round_half_even_of_int again)
  have "\<bar>x\<bar> < 2 ^ 1024" using lt le_top by simp
  then have bounds: "\<not> 2 ^ 1024 \<le> x" "\<not> x \<le> - (2 ^ 1024)" by linarith+
  show ?thesis
    using False r bounds
    by (simp add: round_to_double_def Let_def e_def [symmetric] u_def [symmetric])
qed

lemma is_doubleI:
  "x = of_int m * 2 powi q \<Longrightarrow> \<bar>m\<bar> < 2 ^ 53 \<Longrightarrow> - 1074 \<le> q \<Longrightarrow> q \<le> 971 \<Longrightarrow> is_double x"
  unfolding is_double_def by blast

lemma is_double_small_int:
  assumes "\<bar>n\<bar> < 2 ^ 53"
  shows "is_double (of_int n)"
  by (rule is_doubleI [of _ n 0]) (use assms in simp_all)

lemma is_double_halves:
  assumes "\<bar>n\<bar> < 2 ^ 53"
  shows "is_double (of_int n / 2)"
  by (rule is_doubleI [of _ n "- 1"]) (use assms in \<open>simp_all add: power_int_minus\<close>)



section \<open>Rendered numbers of the examples\<close>

lemma format_2_zero: "format_f 2 0 = ''0.00''"
  by (simp add: format_f_def round_half_even_def Let_def string_of_nat.simps digit_char_def)

lemma format_2_four_and_half: "format_f 2 (9 / 2) = ''4.50''"
  by (simp add: format_f_def round_half_even_def Let_def string_of_nat.simps digit_char_def)

lemma format_3_one: "format_f 3 1 = ''1.000''"
  by code_simp


section \<open>Compliance check: results\<close>

lemma configured_no_machine:
  "rules self = PDict store \<Longrightarrow> store machine = None \<Longrightarrow>
     configured self machine metric = Inr False"
  by (simp add: configured_def)

lemma configured_machine:
  "rules self = PDict store \<Longrightarrow> store machine = Some (PDict ms) \<Longrightarrow>
     configured self machine metric = Inr (ms metric \<noteq> None)"
  by (simp add: configured_def)

lemma check_compliance_no_machine:
  "rules self = PDict store \<Longrightarrow> store machine = None \<Longrightarrow>
     check_compliance self machine metric v = Inr ''UNKNOWN_CONFIG''"
  by (simp add: check_compliance_def configured_no_machine)

lemma check_compliance_no_metric:
  "rules self = PDict store \<Longrightarrow> store machine = Some (PDict ms) \<Longrightarrow> ms metric = None \<Longrightarrow>
     check_compliance self machine metric v = Inr ''UNKNOWN_CONFIG''"
  by (simp add: check_compliance_def configured_machine)

lemma check_compliance_entry:
  assumes "rules self = PDict store" and "store machine = Some (PDict ms)"
    and "ms metric = Some rule"
  shows "check_compliance self machine metric v =
     (case py_getitem rule ''target'' of
        Inl e \<Rightarrow> Inl e
      | Inr target \<Rightarrow>
     (case py_getitem rule ''tolerance_abs'' of
        Inl e \<Rightarrow> Inl e
      | Inr tol \<Rightarrow>
     (case py_sub v target of
        Inl e \<Rightarrow> Inl e
      | Inr d \<Rightarrow>
     (case num_gt (num_abs d) tol of
        Inl e \<Rightarrow> Inl e
      | Inr gt \<Rightarrow>
          if gt then
            (case num_format 2 (num_abs d) of
               Inl e \<Rightarrow> Inl e
             | Inr dev \<Rightarrow> Inr (''FAIL (Dev: '' @ dev @ '')''))
          else Inr ''PASS''))))"
  using assms by (simp add: check_compliance_def configured_machine Let_def split: sum.splits)

lemma check_compliance_entry_known:
  assumes "rules self = PDict store" and "store machine = Some (PDict ms)"
    and "ms metric = Some rule"
  shows "check_compliance self machine metric v \<noteq> Inr ''UNKNOWN_CONFIG''"
  unfolding check_compliance_entry [OF assms]
  by (simp split: sum.splits)

lemma float_of_holds:
  assumes "holds_number p t"
  shows "\<exists>n. number_of p = Some n \<and> float_of n = Inr (Finite t) \<and> exact n = Finite t"
  using assms unfolding holds_number_def
proof (elim disjE exE conjE)
  assume "p = PFloat (Finite t)"
  then show ?thesis by simp
next
  fix n assume "p = PInt n" "t = real_of_int n" "is_double t"
  then show ?thesis by (simp add: round_to_double_exact)
qed

lemma check_compliance_float:
  assumes "rules self = PDict store" and "store machine = Some (PDict ms)"
    and "ms metric = Some (PDict r)"
    and "r ''target'' = Some target" and "r ''tolerance_abs'' = Some tol"
    and "holds_number target t" and "holds_number tol bound"
  shows "check_compliance self machine metric (PFloat f) =
           Inr (if double_gt (fabs (fsub f (Finite t))) (Finite bound)
                then ''FAIL (Dev: '' @ format_double 2 (fabs (fsub f (Finite t))) @ '')''
                else ''PASS'')"
proof -
  from float_of_holds [OF assms(6)] obtain n where
    n: "number_of target = Some n" "float_of n = Inr (Finite t)" by blast
  from float_of_holds [OF assms(7)] obtain k where
    k: "number_of tol = Some k" "exact k = Finite bound" by blast
  have sub: "py_sub (PFloat f) target = Inr (NFloat (fsub f (Finite t)))"
    using n by (cases n) (simp_all add: py_sub_def)
  have gt: "num_gt (NFloat d) tol = Inr (double_gt d (Finite bound))" for d
    using k by (simp add: num_gt_def)
  have fmt: "num_format 2 (NFloat d) = Inr (format_double 2 d)" for d
    by (simp add: num_format_def)
  show ?thesis
    unfolding check_compliance_entry [OF assms(1-3)]
    using assms(4,5) by (simp add: sub gt fmt)
qed



lemma linac_store:
  "rules linac_engine = PDict [''Linac_1'' \<mapsto> PDict [''Dose_Output'' \<mapsto> dose_rule]]"
  by (simp add: linac_engine_def linac_config_def)

lemma hundred_holds: "holds_number (PInt 100) 100"
  unfolding holds_number_def using is_double_small_int [of 100] by simp

lemma two_holds: "holds_number (PInt 2) 2"
  unfolding holds_number_def using is_double_small_int [of 2] by simp

lemma minus_one_holds: "holds_number (PInt (- 1)) (- 1)"
  unfolding holds_number_def using is_double_small_int [of "- 1"] by simp

lemma linac_machine:
  "[''Linac_1'' \<mapsto> PDict [''Dose_Output'' \<mapsto> dose_rule]] ''Linac_1''
     = Some (PDict [''Dose_Output'' \<mapsto> dose_rule])"
  by simp

lemma linac_metric:
  "[''Dose_Output'' \<mapsto> dose_rule] ''Dose_Output''
     = Some (PDict [''target'' \<mapsto> PInt 100, ''tolerance_abs'' \<mapsto> PInt 2,
                    ''unit'' \<mapsto> PStr ''%''])"
  by (simp add: dose_rule_def)

lemma dose_target:
  "[''target'' \<mapsto> PInt 100, ''tolerance_abs'' \<mapsto> PInt 2, ''unit'' \<mapsto> PStr ''%''] ''target''
     = Some (PInt 100)"
  by simp

lemma dose_tolerance:
  "[''target'' \<mapsto> PInt 100, ''tolerance_abs'' \<mapsto> PInt 2, ''unit'' \<mapsto> PStr ''%'']
     ''tolerance_abs'' = Some (PInt 2)"
  by simp

lemma linac_check:
  "check_compliance linac_engine ''Linac_1'' ''Dose_Output'' (PFloat f) =
     Inr (if double_gt (fabs (fsub f (Finite 100))) (Finite 2)
          then ''FAIL (Dev: '' @ format_double 2 (fabs (fsub f (Finite 100))) @ '')''
          else ''PASS'')"
  by (rule check_compliance_float [OF linac_store linac_machine linac_metric dose_target
        dose_tolerance hundred_holds two_holds])

lemma negative_store:
  "rules negative_engine = PDict [''Linac_1'' \<mapsto> PDict [''Dose_Output'' \<mapsto> negative_rule]]"
  by (simp add: negative_engine_def negative_config_def)

lemma negative_machine:
  "[''Linac_1'' \<mapsto> PDict [''Dose_Output'' \<mapsto> negative_rule]] ''Linac_1''
     = Some (PDict [''Dose_Output'' \<mapsto> negative_rule])"
  by simp

lemma negative_metric:
  "[''Dose_Output'' \<mapsto> negative_rule] ''Dose_Output''
     = Some (PDict [''target'' \<mapsto> PInt 100, ''tolerance_abs'' \<mapsto> PInt (- 1),
                    ''unit'' \<mapsto> PStr ''%''])"
  by (simp add: negative_rule_def)

lemma negative_target:
  "[''target'' \<mapsto> PInt 100, ''tolerance_abs'' \<mapsto> PInt (- 1), ''unit'' \<mapsto> PStr ''%'']
     ''target'' = Some (PInt 100)"
  by simp

lemma negative_tolerance:
  "[''target'' \<mapsto> PInt 100, ''tolerance_abs'' \<mapsto> PInt (- 1), ''unit'' \<mapsto> PStr ''%'']
     ''tolerance_abs'' = Some (PInt (- 1))"
  by simp

lemma negative_check:
  "check_compliance negative_engine ''Linac_1'' ''Dose_Output'' (PFloat f) =
     Inr (if double_gt (fabs (fsub f (Finite 100))) (Finite (- 1))
          then ''FAIL (Dev: '' @ format_double 2 (fabs (fsub f (Finite 100))) @ '')''
          else ''PASS'')"
  by (rule check_compliance_float [OF negative_store negative_machine negative_metric
        negative_target negative_tolerance hundred_holds minus_one_holds])

lemma round_four_and_half: "round_to_double (9 / 2) = Finite (9 / 2)"
  using round_to_double_exact [OF is_double_halves [of 9]] by simp

lemma round_quarter: "round_to_double (1 / 4) = Finite (1 / 4)"
proof -
  have "is_double (1 / 4)" by (rule is_doubleI [of _ 1 "- 2"]) simp_all
  then show ?thesis by (rule round_to_double_exact)
qed

lemma round_two: "round_to_double 2 = Finite 2"
  using round_to_double_exact [OF is_double_small_int [of 2]] by simp





text \<open>
  C2 fails as stated: the null of an empty configuration file loads as the rule store;
  it holds no rule for any pair, and the check raises \<^verbatim>\<open>TypeError\<close> instead of
  returning UNKNOWN_CONFIG.
\<close>

theorem empty_store_raises_counterexample:
  "QualityControlEngine_init (Document PNone) ''qc_history.db'' = Inr empty_engine
   \<and> check_compliance empty_engine ''Linac_1'' ''Dose_Output'' (PFloat (Finite 100))
       = Inl TypeError"
  by (simp add: QualityControlEngine_init_def empty_engine_def check_compliance_def
      configured_def)

text \<open>
  C2, as the code has it. For a rule store that is a mapping in which the entry of the
  machine, if there is one, is a mapping: whatever the value, the check returns
  UNKNOWN_CONFIG exactly when the store has no entry for the machine or the machine's
  entry has none for the metric; and UNKNOWN_CONFIG is neither the PASS status nor a
  FAIL status.
\<close>

theorem unknown_config_iff_no_entry:
  assumes "rules self = PDict store"
    and "store machine = None \<or> (\<exists>ms. store machine = Some (PDict ms))"
  shows "(check_compliance self machine metric v = Inr ''UNKNOWN_CONFIG''
          \<longleftrightarrow> store machine = None
              \<or> (\<exists>ms. store machine = Some (PDict ms) \<and> ms metric = None))
       \<and> ''UNKNOWN_CONFIG'' \<noteq> ''PASS''
       \<and> ''UNKNOWN_CONFIG'' \<noteq> ''FAIL (Dev: '' @ dev @ '')''"
proof -
  have "check_compliance self machine metric v = Inr ''UNKNOWN_CONFIG''
      \<longleftrightarrow> store machine = None
          \<or> (\<exists>ms. store machine = Some (PDict ms) \<and> ms metric = None)"
  proof (cases "store machine")
    case None
    then show ?thesis using check_compliance_no_machine [OF assms(1)] by simp
  next
    case (Some entry)
    with assms(2) obtain ms where ms: "store machine = Some (PDict ms)" by auto
    show ?thesis
    proof (cases "ms metric")
      case None
      then show ?thesis using check_compliance_no_metric [OF assms(1) ms] ms by simp
    next
      case (Some rule)
      then show ?thesis using check_compliance_entry_known [OF assms(1) ms] ms by simp
    qed
  qed
  then show ?thesis by simp
qed

theorem unknown_config_iff_no_entry_witness:
  "rules linac_engine = PDict [''Linac_1'' \<mapsto> PDict [''Dose_Output'' \<mapsto> dose_rule]]
   \<and> check_compliance linac_engine ''MachineX'' ''MetricY'' (PFloat (Finite 7))
       = Inr ''UNKNOWN_CONFIG''
   \<and> check_compliance linac_engine ''Linac_1'' ''Symmetry'' (PFloat (Finite 7))
       = Inr ''UNKNOWN_CONFIG''
   \<and> check_compliance linac_engine ''Linac_1'' ''Dose_Output'' (PFloat (Finite 102))
       \<noteq> Inr ''UNKNOWN_CONFIG''
   \<and> check_compliance linac_engine ''Linac_1'' ''Dose_Output'' (PFloat (Finite 102))
       = Inr ''PASS''"
proof -
  have absent: "[''Linac_1'' \<mapsto> PDict [''Dose_Output'' \<mapsto> dose_rule]] ''MachineX'' = None
      \<or> (\<exists>ms. [''Linac_1'' \<mapsto> PDict [''Dose_Output'' \<mapsto> dose_rule]] ''MachineX''
            = Some (PDict ms))"
    by simp
  have present: "[''Linac_1'' \<mapsto> PDict [''Dose_Output'' \<mapsto> dose_rule]] ''Linac_1'' = None
      \<or> (\<exists>ms. [''Linac_1'' \<mapsto> PDict [''Dose_Output'' \<mapsto> dose_rule]] ''Linac_1''
            = Some (PDict ms))"
    by simp
  have pass: "check_compliance linac_engine ''Linac_1'' ''Dose_Output'' (PFloat (Finite 102))
      = Inr ''PASS''"
    by (simp add: linac_check round_two)
  show ?thesis
    using unknown_config_iff_no_entry [OF linac_store absent, of "''MetricY''" "PFloat (Finite 7)" "''''"]
      unknown_config_iff_no_entry [OF linac_store present, of "''Symmetry''" "PFloat (Finite 7)" "''''"]
      unknown_config_iff_no_entry [OF linac_store present, of "''Dose_Output''"
        "PFloat (Finite 102)" "''''"]
      linac_store pass
    by simp
qed





section \<open>Drift analysis: results\<close>

lemma ns_per_day_pos: "0 < ns_per_day"
  by (simp add: ns_per_day_def)

lemma day_offsets_length: "length (day_offsets dates) = length dates"
  by (simp add: day_offsets_def)


lemma day_offsets_nonneg:
  assumes "x \<in> set (day_offsets dates)"
  shows "0 \<le> x"
proof -
  from assms obtain d where d: "d \<in> set dates" and x: "x = (d - Min (set dates)) div ns_per_day"
    by (auto simp: day_offsets_def)
  have "Min (set dates) \<le> d" using d by simp
  then show ?thesis using x ns_per_day_pos by (simp add: pos_imp_zdiv_nonneg_iff)
qed

lemma day_offsets_has_zero:
  assumes "dates \<noteq> []"
  shows "0 \<in> set (day_offsets dates)"
proof -
  have "Min (set dates) \<in> set dates" using assms by (intro Min_in) simp_all
  then have "(Min (set dates) - Min (set dates)) div ns_per_day
      \<in> (\<lambda>d. (d - Min (set dates)) div ns_per_day) ` set dates"
    by (rule imageI)
  then show ?thesis by (simp add: day_offsets_def)
qed

lemma day_offsets_Min:
  assumes "dates \<noteq> []"
  shows "Min (set (day_offsets dates)) = 0"
proof (rule Min_eqI)
  show "finite (set (day_offsets dates))" by simp
  show "\<And>y. y \<in> set (day_offsets dates) \<Longrightarrow> 0 \<le> y" by (rule day_offsets_nonneg)
  show "0 \<in> set (day_offsets dates)" by (rule day_offsets_has_zero [OF assms])
qed

lemma same_day_iff_offsets:
  "same_day dates \<longleftrightarrow> (\<forall>x \<in> set (day_offsets dates). x = 0)"
  by (auto simp: same_day_def day_offsets_def)

lemma same_day_iff_Max_Min:
  assumes "dates \<noteq> []"
  shows "same_day dates \<longleftrightarrow> Max (set (day_offsets dates)) = Min (set (day_offsets dates))"
proof
  assume "same_day dates"
  then have "set (day_offsets dates) = {0}"
    using day_offsets_has_zero [OF assms] by (auto simp: same_day_iff_offsets)
  then show "Max (set (day_offsets dates)) = Min (set (day_offsets dates))" by simp
next
  assume eq: "Max (set (day_offsets dates)) = Min (set (day_offsets dates))"
  show "same_day dates"
    unfolding same_day_iff_offsets
  proof
    fix x assume x: "x \<in> set (day_offsets dates)"
    then have "x \<le> Max (set (day_offsets dates))" by simp
    moreover have "0 \<le> x" using x by (rule day_offsets_nonneg)
    ultimately show "x = 0" using eq day_offsets_Min [OF assms] by simp
  qed
qed

text \<open>For calendar dates (midnights) the records are on one day exactly when their
  dates are equal.\<close>

lemma same_day_calendar:
  assumes "\<forall>d \<in> set dates. ns_per_day dvd d"
  shows "same_day dates \<longleftrightarrow> (\<forall>d \<in> set dates. \<forall>d' \<in> set dates. d = d')"
proof (cases "dates = []")
  case True
  then show ?thesis by (simp add: same_day_def)
next
  case False
  then have m: "Min (set dates) \<in> set dates" by (intro Min_in) simp_all
  have step: "d = Min (set dates) \<longleftrightarrow> (d - Min (set dates)) div ns_per_day = 0"
    if d: "d \<in> set dates" for d
  proof -
    have "ns_per_day dvd d - Min (set dates)" using assms d m by (simp add: dvd_diff)
    then obtain k where k: "d - Min (set dates) = ns_per_day * k" by (auto simp: dvd_def)
    then have "(d - Min (set dates)) div ns_per_day = k" using ns_per_day_pos by simp
    then show ?thesis using k by auto
  qed
  show ?thesis
  proof
    assume s: "same_day dates"
    then have "\<forall>d \<in> set dates. d = Min (set dates)" using step by (simp add: same_day_def)
    then show "\<forall>d \<in> set dates. \<forall>d' \<in> set dates. d = d'" by metis
  next
    assume "\<forall>d \<in> set dates. \<forall>d' \<in> set dates. d = d'"
    then have "\<forall>d \<in> set dates. d = Min (set dates)" using m by blast
    then show "same_day dates" using step by (simp add: same_day_def)
  qed
qed

lemma scipy_same_day:
  assumes "5 \<le> length vals" and "same_day dates"
  shows "scipy_linregress (day_offsets dates) vals = Inl ValueError"
proof (cases "dates = []")
  case True
  then show ?thesis by (simp add: scipy_linregress_def day_offsets_def)
next
  case False
  then have eq: "Max (set (day_offsets dates)) = Min (set (day_offsets dates))"
    using assms(2) same_day_iff_Max_Min by blast
  show ?thesis
  proof (cases "1 < length dates")
    case True
    then show ?thesis using eq by (simp add: scipy_linregress_def day_offsets_length)
  next
    case False
    then have "length (day_offsets dates) \<noteq> length vals"
      using assms(1) by (simp add: day_offsets_length)
    then show ?thesis by (simp add: scipy_linregress_def)
  qed
qed

lemma analyze_drift_short:
  "length vals < 5 \<Longrightarrow> analyze_drift fit self dates vals machine metric = Inr self"
  by (simp add: analyze_drift_def)

lemma analyze_drift_error:
  assumes "5 \<le> length vals" and "fitted_slope fit dates vals = Inl e"
  shows "analyze_drift fit self dates vals machine metric = Inl e"
  using assms by (simp add: analyze_drift_def)

lemma analyze_drift_slope:
  assumes "5 \<le> length vals" and "fitted_slope fit dates vals = Inr (Some s)"
  shows "analyze_drift fit self dates vals machine metric =
           Inr (if 1 / 10 < \<bar>s\<bar>
                then self\<lparr>drift_alerts := drift_alerts self @
                       [''['' @ machine @ ''] '' @ metric @
                        '': Significant Drift detected (Slope: '' @ format_f 3 s @ ''/day)'']\<rparr>
                else self)"
  using assms by (simp add: analyze_drift_def Let_def)

lemma ramp_offsets: "day_offsets ramp_dates = [0, 1, 2, 3, 4]"
  by (simp add: day_offsets_def ramp_dates_def day_def ns_per_day_def)

lemma one_day_offsets: "day_offsets one_day_dates = [0, 0, 0, 0, 0]"
  by (simp add: day_offsets_def one_day_dates_def day_def ns_per_day_def)

lemma ramp_slope: "fitted_slope scipy_linregress ramp_dates ramp_values = Inr (Some 1)"
  by (simp add: fitted_slope_def ramp_offsets scipy_linregress_def ramp_values_def mean_def Let_def)

lemma one_day_fit: "fitted_slope scipy_linregress one_day_dates steady_values = Inl ValueError"
  by (simp add: fitted_slope_def one_day_offsets scipy_linregress_def steady_values_def)

lemma one_day_same: "same_day one_day_dates"
  by (simp add: same_day_def one_day_dates_def)








lemma scipy_column_floats:
  "scipy_linregress_column x (map (\<lambda>y. PFloat (Finite y)) ys) = scipy_linregress x ys"
proof -
  have numbers: "list_all is_number (map (\<lambda>y. PFloat (Finite y)) ys)"
    by (induction ys) simp_all
  have all_finite: "list_all (\<lambda>c. finite_value c \<noteq> None) (map (\<lambda>y. PFloat (Finite y)) ys)"
    by (induction ys) simp_all
  have kept: "List.map_filter finite_value (map (\<lambda>y. PFloat (Finite y)) ys) = ys"
    by (induction ys) (simp_all add: List.map_filter_simps)
  show ?thesis
    unfolding scipy_linregress_column_def
    by (simp only: numbers all_finite kept simp_thms if_False) (simp add: scipy_linregress_def)
qed

lemma one_day_values: "map Value one_day_table = map (\<lambda>y. PFloat (Finite y)) steady_values"
  by (simp add: one_day_table_def dose_row_def steady_values_def)

lemma one_day_column: "map Date one_day_table = one_day_dates"
  by (simp add: one_day_table_def dose_row_def one_day_dates_def)

lemma one_day_groups:
  "groupby one_day_table = [((''Linac_1'', ''Dose_Output''), one_day_table)]"
  by (simp add: groupby_def one_day_table_def dose_row_def)

lemma round_one: "round_to_double 1 = Finite 1"
  using round_to_double_exact [OF is_double_small_int [of 1]] by simp

lemma round_minus_one: "round_to_double (- 1) = Finite (- 1)"
  using round_to_double_exact [OF is_double_small_int [of "- 1"]] by simp

lemma one_day_statuses:
  "compliance_loop linac_engine one_day_table
     = Inr [''PASS'', ''PASS'', ''PASS'', ''PASS'', ''PASS'']"
  by (simp add: one_day_table_def dose_row_def linac_check round_to_double_zero round_one
      round_minus_one)

lemma linac_configured: "configured linac_engine ''Linac_1'' ''Dose_Output'' = Inr True"
  using configured_machine [OF linac_store linac_machine, of "''Dose_Output''"]
  by (simp add: dose_rule_def)

lemma one_day_main:
  "main scipy_linregress_column (Document linac_config) (Table one_day_table) = Inl ValueError"
proof -
  have init: "QualityControlEngine_init (Document linac_config) ''qc_history.db'' = Inr linac_engine"
    by (simp add: QualityControlEngine_init_def linac_engine_def)
  have drift: "analyze_drift scipy_linregress_column linac_engine one_day_dates
      (map (\<lambda>y. PFloat (Finite y)) steady_values) ''Linac_1'' ''Dose_Output'' = Inl ValueError"
  proof -
    have "length (map (\<lambda>y. PFloat (Finite y)) steady_values) = 5"
      by (simp add: steady_values_def)
    then show ?thesis
      using one_day_fit
      by (simp add: analyze_drift_def fitted_slope_def scipy_column_floats)
  qed
  show ?thesis
    by (simp add: main_def init one_day_statuses one_day_groups linac_configured
        one_day_values one_day_column drift)
qed

text \<open>
  C3. For a group with fewer than five values, whatever the dates, the values and the
  regression function, drift analysis raises nothing and leaves the engine, and so the
  list of alerts, as it was.
\<close>

theorem short_group_no_alert:
  "length vals < 5 \<Longrightarrow> analyze_drift linregress self dates vals machine metric = Inr self"
  by (rule analyze_drift_short)

theorem short_group_no_alert_witness:
  "length short_values < 5
   \<and> analyze_drift scipy_linregress ct_engine short_dates short_values
        ''CT_Scanner_A'' ''Water_HU'' = Inr ct_engine"
proof -
  have len: "length short_values < 5" by (simp add: short_values_def)
  show ?thesis
    using short_group_no_alert [OF len, of scipy_linregress ct_engine short_dates
        "''CT_Scanner_A''" "''Water_HU''"] len
    by simp
qed

text \<open>
  C4. For a group of at least five records that are all on one day the x-coordinates
  are identical; the library's regression rejects them, the method does not catch the
  exception, and the call ends with \<^verbatim>\<open>ValueError\<close> instead of returning without an
  alert. The example shows the same for a whole run.
\<close>

theorem same_day_group_raises:
  assumes "5 \<le> length vals" and "same_day dates"
  shows "analyze_drift scipy_linregress self dates vals machine metric = Inl ValueError"
  using assms scipy_same_day [OF assms]
  by (intro analyze_drift_error) (simp_all add: fitted_slope_def)

theorem same_day_group_raises_witness:
  "5 \<le> length steady_values
   \<and> same_day one_day_dates
   \<and> analyze_drift scipy_linregress linac_engine one_day_dates steady_values
        ''Linac_1'' ''Dose_Output'' = Inl ValueError
   \<and> main scipy_linregress_column (Document linac_config) (Table one_day_table)
       = Inl ValueError"
proof -
  have len: "5 \<le> length steady_values" by (simp add: steady_values_def)
  show ?thesis
    using same_day_group_raises [OF len one_day_same, of linac_engine
        "''Linac_1''" "''Dose_Output''"] len one_day_same one_day_main
    by simp
qed







section \<open>The audit run: results\<close>

lemma check_compliance_rules_only:
  assumes "rules e1 = rules e2"
  shows "check_compliance e1 machine metric v = check_compliance e2 machine metric v"
  unfolding check_compliance_def configured_def assms by (rule refl)

lemma compliance_loop_returns:
  assumes "\<forall>i < length df. \<exists>status.
             check_compliance engine (Machine_ID (df ! i)) (Metric (df ! i)) (Value (df ! i))
               = Inr status"
  shows "\<exists>results. compliance_loop engine df = Inr results \<and> length results = length df
       \<and> (\<forall>i < length df.
             check_compliance engine (Machine_ID (df ! i)) (Metric (df ! i)) (Value (df ! i))
               = Inr (results ! i))"
  using assms
proof (induction df)
  case Nil
  then show ?case by simp
next
  case (Cons r rs)
  from Cons.prems have "\<exists>status.
      check_compliance engine (Machine_ID ((r # rs) ! 0)) (Metric ((r # rs) ! 0))
        (Value ((r # rs) ! 0)) = Inr status"
    by blast
  then obtain status where
    st: "check_compliance engine (Machine_ID r) (Metric r) (Value r) = Inr status"
    by auto
  have "\<forall>i < length rs. \<exists>status.
      check_compliance engine (Machine_ID (rs ! i)) (Metric (rs ! i)) (Value (rs ! i))
        = Inr status"
  proof (intro allI impI)
    fix i assume "i < length rs"
    then have "Suc i < length (r # rs)" by simp
    with Cons.prems have "\<exists>status.
        check_compliance engine (Machine_ID ((r # rs) ! Suc i)) (Metric ((r # rs) ! Suc i))
          (Value ((r # rs) ! Suc i)) = Inr status"
      by blast
    then show "\<exists>status.
        check_compliance engine (Machine_ID (rs ! i)) (Metric (rs ! i)) (Value (rs ! i))
          = Inr status"
      by simp
  qed
  with Cons.IH obtain results where
    res: "compliance_loop engine rs = Inr results" "length results = length rs"
      "\<forall>i < length rs.
         check_compliance engine (Machine_ID (rs ! i)) (Metric (rs ! i)) (Value (rs ! i))
           = Inr (results ! i)"
    by blast
  have nth: "check_compliance engine (Machine_ID ((r # rs) ! i)) (Metric ((r # rs) ! i))
      (Value ((r # rs) ! i)) = Inr ((status # results) ! i)" if "i < length (r # rs)" for i
    using that st res(3) by (cases i) simp_all
  have "compliance_loop engine (r # rs) = Inr (status # results)"
    using st res(1) by simp
  moreover have "length (status # results) = length (r # rs)" using res(2) by simp
  ultimately show ?case using nth by blast
qed

lemma compliance_loop_raises:
  assumes "i < length df"
    and "check_compliance engine (Machine_ID (df ! i)) (Metric (df ! i)) (Value (df ! i)) = Inl e"
  shows "\<exists>e'. compliance_loop engine df = Inl e'"
  using assms
proof (induction df arbitrary: i)
  case Nil
  then show ?case by simp
next
  case (Cons r rs)
  show ?case
  proof (cases i)
    case 0
    with Cons.prems show ?thesis by simp
  next
    case (Suc j)
    with Cons.prems have "j < length rs"
      and "check_compliance engine (Machine_ID (rs ! j)) (Metric (rs ! j)) (Value (rs ! j)) = Inl e"
      by simp_all
    then obtain e' where "compliance_loop engine rs = Inl e'"
      using Cons.IH by blast
    then show ?thesis by (simp split: sum.splits)
  qed
qed

lemma main_document:
  "main linregress (Document doc) (Table df) =
     (case compliance_loop \<lparr>db_path = ''qc_history.db'', rules = doc, drift_alerts = []\<rparr> df of
        Inl e \<Rightarrow> Inl e
      | Inr results \<Rightarrow>
          (case trend_loop linregress
                  \<lparr>db_path = ''qc_history.db'', rules = doc, drift_alerts = []\<rparr> (groupby df) of
             Inl e \<Rightarrow> Inl e
           | Inr engine' \<Rightarrow> Inr (results, drift_alerts engine')))"
  by (simp add: main_def QualityControlEngine_init_def)

lemma text_store:
  "rules \<lparr>db_path = ''qc_history.db'', rules = text_config, drift_alerts = []\<rparr>
     = PDict [''Linac_1'' \<mapsto> PDict [''Dose_Output'' \<mapsto> text_rule]]"
  by (simp add: text_config_def)

lemma text_check:
  "check_compliance \<lparr>db_path = ''qc_history.db'', rules = text_config, drift_alerts = []\<rparr>
     ''Linac_1'' ''Dose_Output'' (PFloat (Finite 100)) = Inl TypeError"
proof -
  have machine: "[''Linac_1'' \<mapsto> PDict [''Dose_Output'' \<mapsto> text_rule]] ''Linac_1''
      = Some (PDict [''Dose_Output'' \<mapsto> text_rule])" by simp
  have metric: "[''Dose_Output'' \<mapsto> text_rule] ''Dose_Output'' = Some text_rule" by simp
  show ?thesis
    unfolding check_compliance_entry [OF text_store machine metric]
    by (simp add: text_rule_def py_sub_def)
qed

lemma text_loop:
  "compliance_loop \<lparr>db_path = ''qc_history.db'', rules = text_config, drift_alerts = []\<rparr>
     [dose_row 0 100] = Inl TypeError"
  by (simp add: dose_row_def text_check)

lemma text_main:
  "main scipy_linregress_column (Document text_config) (Table [dose_row 0 100]) = Inl TypeError"
  by (simp add: main_document dose_row_def text_check)

lemma mixed_loop:
  "compliance_loop linac_engine mixed_table
     = Inr [''FAIL (Dev: 4.50)'', ''UNKNOWN_CONFIG'', ''PASS'']"
proof -
  have none: "[''Linac_1'' \<mapsto> PDict [''Dose_Output'' \<mapsto> dose_rule]] ''MachineX'' = None"
    by simp
  have unknown: "check_compliance linac_engine ''MachineX'' ''MetricY'' (PFloat (Finite 7))
      = Inr ''UNKNOWN_CONFIG''"
    by (rule check_compliance_no_machine [OF linac_store none])
  show ?thesis
    by (simp add: mixed_table_def dose_row_def unknown_row_def unknown linac_check
        round_four_and_half round_quarter format_2_four_and_half)
qed

text \<open>
  C8 fails as stated: a configuration whose rule has a text for a target loads, the
  check of the first record of that pair raises \<^verbatim>\<open>TypeError\<close>, the loop and the run
  end there, and no record has a result.
\<close>

theorem text_target_aborts_loop_counterexample:
  "QualityControlEngine_init (Document text_config) ''qc_history.db''
     = Inr \<lparr>db_path = ''qc_history.db'', rules = text_config, drift_alerts = []\<rparr>
   \<and> py_getitem text_rule ''target'' = Inr (PStr ''100'')
   \<and> compliance_loop \<lparr>db_path = ''qc_history.db'', rules = text_config, drift_alerts = []\<rparr>
        [dose_row 0 100] = Inl TypeError
   \<and> main scipy_linregress_column (Document text_config) (Table [dose_row 0 100])
       = Inl TypeError"
  by (simp add: QualityControlEngine_init_def main_document dose_row_def text_check
      text_rule_def)

text \<open>
  C8, as the code has it. For a table on which no check raises, the loop of the run
  returns exactly one status for every row, in the order of the rows: the status at
  position \<open>i\<close> is the result of the check of row \<open>i\<close>, and it is UNKNOWN_CONFIG where
  the store is a mapping without the row's machine. If the check of some row raises,
  the loop raises, and no row has a status. The run raises what the loop raises, and
  otherwise returns the loop's list as its status column whenever the drift analysis
  that follows raises nothing.
\<close>

theorem one_result_per_row_unless_check_raises:
  "((\<forall>i < length df. \<exists>status.
        check_compliance engine (Machine_ID (df ! i)) (Metric (df ! i)) (Value (df ! i))
          = Inr status)
      \<longrightarrow> (\<exists>results. compliance_loop engine df = Inr results \<and> length results = length df
            \<and> (\<forall>i < length df.
                  check_compliance engine (Machine_ID (df ! i)) (Metric (df ! i))
                    (Value (df ! i)) = Inr (results ! i))
            \<and> (\<forall>i < length df. \<forall>store.
                  rules engine = PDict store \<and> store (Machine_ID (df ! i)) = None
                    \<longrightarrow> results ! i = ''UNKNOWN_CONFIG'')))
   \<and> ((\<exists>i < length df. \<exists>e.
         check_compliance engine (Machine_ID (df ! i)) (Metric (df ! i)) (Value (df ! i))
           = Inl e)
      \<longrightarrow> (\<exists>e. compliance_loop engine df = Inl e))
   \<and> main linregress (Document doc) (Table df) =
       (case compliance_loop \<lparr>db_path = ''qc_history.db'', rules = doc, drift_alerts = []\<rparr> df of
          Inl e \<Rightarrow> Inl e
        | Inr results \<Rightarrow>
            (case trend_loop linregress
                    \<lparr>db_path = ''qc_history.db'', rules = doc, drift_alerts = []\<rparr>
                    (groupby df) of
               Inl e \<Rightarrow> Inl e
             | Inr engine' \<Rightarrow> Inr (results, drift_alerts engine')))"
proof (intro conjI impI)
  assume all: "\<forall>i < length df. \<exists>status.
      check_compliance engine (Machine_ID (df ! i)) (Metric (df ! i)) (Value (df ! i))
        = Inr status"
  from compliance_loop_returns [OF all] obtain results where
    res: "compliance_loop engine df = Inr results" "length results = length df"
      "\<forall>i < length df.
         check_compliance engine (Machine_ID (df ! i)) (Metric (df ! i)) (Value (df ! i))
           = Inr (results ! i)"
    by blast
  have unknown: "results ! i = ''UNKNOWN_CONFIG''"
    if "i < length df" "rules engine = PDict store" "store (Machine_ID (df ! i)) = None"
    for i store
  proof -
    have "check_compliance engine (Machine_ID (df ! i)) (Metric (df ! i)) (Value (df ! i))
        = Inr ''UNKNOWN_CONFIG''"
      using that(2,3) by (rule check_compliance_no_machine)
    with res(3) that(1) show ?thesis by simp
  qed
  from res unknown show "\<exists>results. compliance_loop engine df = Inr results
      \<and> length results = length df
      \<and> (\<forall>i < length df.
            check_compliance engine (Machine_ID (df ! i)) (Metric (df ! i))
              (Value (df ! i)) = Inr (results ! i))
      \<and> (\<forall>i < length df. \<forall>store.
            rules engine = PDict store \<and> store (Machine_ID (df ! i)) = None
              \<longrightarrow> results ! i = ''UNKNOWN_CONFIG'')"
    by blast
next
  assume "\<exists>i < length df. \<exists>e.
      check_compliance engine (Machine_ID (df ! i)) (Metric (df ! i)) (Value (df ! i)) = Inl e"
  then show "\<exists>e. compliance_loop engine df = Inl e"
    using compliance_loop_raises by blast
next
  show "main linregress (Document doc) (Table df) =
       (case compliance_loop \<lparr>db_path = ''qc_history.db'', rules = doc, drift_alerts = []\<rparr> df of
          Inl e \<Rightarrow> Inl e
        | Inr results \<Rightarrow>
            (case trend_loop linregress
                    \<lparr>db_path = ''qc_history.db'', rules = doc, drift_alerts = []\<rparr>
                    (groupby df) of
               Inl e \<Rightarrow> Inl e
             | Inr engine' \<Rightarrow> Inr (results, drift_alerts engine')))"
    by (rule main_document)
qed

theorem one_result_per_row_unless_check_raises_witness:
  "compliance_loop linac_engine mixed_table
     = Inr [''FAIL (Dev: 4.50)'', ''UNKNOWN_CONFIG'', ''PASS'']
   \<and> length [''FAIL (Dev: 4.50)'', ''UNKNOWN_CONFIG'', ''PASS''] = length mixed_table
   \<and> (\<exists>results. compliance_loop linac_engine mixed_table = Inr results
         \<and> length results = length mixed_table)
   \<and> main scipy_linregress_column (Document linac_config) (Table mixed_table)
       = Inr ([''FAIL (Dev: 4.50)'', ''UNKNOWN_CONFIG'', ''PASS''], [])"
proof -
  have len: "length mixed_table = 3" by (simp add: mixed_table_def)
  have each: "\<forall>i < length mixed_table. \<exists>status.
      check_compliance linac_engine (Machine_ID (mixed_table ! i)) (Metric (mixed_table ! i))
        (Value (mixed_table ! i)) = Inr status"
  proof (intro allI impI)
    fix i assume "i < length mixed_table"
    then have "i = 0 \<or> i = 1 \<or> i = 2" using len by auto
    moreover have "[''Linac_1'' \<mapsto> PDict [''Dose_Output'' \<mapsto> dose_rule]] ''MachineX'' = None"
      by simp
    ultimately show "\<exists>status.
        check_compliance linac_engine (Machine_ID (mixed_table ! i)) (Metric (mixed_table ! i))
          (Value (mixed_table ! i)) = Inr status"
      using check_compliance_no_machine [OF linac_store, of "''MachineX''" "''MetricY''"]
      by (auto simp: mixed_table_def dose_row_def unknown_row_def linac_check)
  qed
  note inst = one_result_per_row_unless_check_raises
    [of mixed_table linac_engine scipy_linregress_column linac_config]
  from inst each have exists: "\<exists>results. compliance_loop linac_engine mixed_table = Inr results
         \<and> length results = length mixed_table"
    by blast
  have engine: "\<lparr>db_path = ''qc_history.db'', rules = linac_config, drift_alerts = []\<rparr>
      = linac_engine"
    by (simp add: linac_engine_def)
  have groups: "groupby mixed_table =
      [((''Linac_1'', ''Dose_Output''), [dose_row 0 (209 / 2), dose_row 1 (401 / 4)]),
       ((''MachineX'', ''MetricY''), [unknown_row])]"
    by (simp add: groupby_def mixed_table_def dose_row_def unknown_row_def)
  have none: "[''Linac_1'' \<mapsto> PDict [''Dose_Output'' \<mapsto> dose_rule]] ''MachineX'' = None"
    by simp
  have trend: "trend_loop scipy_linregress_column linac_engine (groupby mixed_table)
      = Inr linac_engine"
    by (simp add: groups linac_configured configured_no_machine [OF linac_store none]
        analyze_drift_def)
  have alerts: "drift_alerts linac_engine = []" by (simp add: linac_engine_def)
  from inst have "main scipy_linregress_column (Document linac_config) (Table mixed_table)
      = Inr ([''FAIL (Dev: 4.50)'', ''UNKNOWN_CONFIG'', ''PASS''], [])"
    by (simp add: engine mixed_loop trend alerts)
  with mixed_loop len exists show ?thesis by simp
qed


section \<open>Loading the configuration: results\<close>

lemma init_document:
  "QualityControlEngine_init (Document doc) db = Inr \<lparr>db_path = db, rules = doc, drift_alerts = []\<rparr>"
  by (simp add: QualityControlEngine_init_def)

lemma negative_main:
  "main scipy_linregress_column (Document negative_config) (Table [dose_row 0 100])
     = Inr ([''FAIL (Dev: 0.00)''], [])"
proof -
  have engine: "\<lparr>db_path = ''qc_history.db'', rules = negative_config, drift_alerts = []\<rparr>
      = negative_engine"
    by (simp add: negative_engine_def)
  have configured: "configured negative_engine ''Linac_1'' ''Dose_Output'' = Inr True"
    using configured_machine [OF negative_store negative_machine, of "''Dose_Output''"]
    by simp
  have alerts: "drift_alerts negative_engine = []" by (simp add: negative_engine_def)
  show ?thesis
    by (simp add: main_document engine dose_row_def negative_check round_to_double_zero
        format_2_zero groupby_def configured analyze_drift_def alerts)
qed

text \<open>
  C7 fails as stated: a configuration whose rule has tolerance -1 loads, the run
  completes, and the rule shows as the FAIL status of a row whose value is the target; a
  configuration whose rule has a text for a target loads as well.
\<close>

theorem invalid_rule_loads_counterexample:
  "QualityControlEngine_init (Document negative_config) ''qc_history.db'' = Inr negative_engine
   \<and> py_getitem negative_rule ''tolerance_abs'' = Inr (PInt (- 1))
   \<and> main scipy_linregress_column (Document negative_config) (Table [dose_row 0 100])
       = Inr ([''FAIL (Dev: 0.00)''], [])
   \<and> QualityControlEngine_init (Document text_config) ''qc_history.db''
       = Inr \<lparr>db_path = ''qc_history.db'', rules = text_config, drift_alerts = []\<rparr>
   \<and> py_getitem text_rule ''target'' = Inr (PStr ''100'')"
  using negative_main
  by (simp add: init_document negative_engine_def negative_rule_def text_rule_def)

text \<open>
  C7, as the code has it. Loading validates no rule: construction of the engine fails
  exactly when the configuration file is missing or cannot be parsed, which ends the run
  with status 1 before any row is read; every parsed document becomes the rule store
  as it is.
\<close>

theorem config_load_validates_nothing:
  "QualityControlEngine_init (Document doc) db
     = Inr \<lparr>db_path = db, rules = doc, drift_alerts = []\<rparr>
   \<and> ((\<exists>e. QualityControlEngine_init src db = Inl e) \<longleftrightarrow> src = FileNotFound \<or> src = Unparsable)
   \<and> main linregress FileNotFound input = Inl (SystemExit 1)
   \<and> main linregress Unparsable input = Inl (SystemExit 1)"
proof -
  have fails: "(\<exists>e. QualityControlEngine_init src db = Inl e) \<longleftrightarrow> src = FileNotFound \<or> src = Unparsable"
    by (cases src) (simp_all add: QualityControlEngine_init_def)
  have exits: "main linregress FileNotFound input = Inl (SystemExit 1)"
    "main linregress Unparsable input = Inl (SystemExit 1)"
    by (simp_all add: main_def QualityControlEngine_init_def)
  from init_document fails exits show ?thesis by blast
qed

theorem config_load_validates_nothing_witness:
  "QualityControlEngine_init (Document negative_config) ''qc_history.db'' = Inr negative_engine
   \<and> QualityControlEngine_init (Document PNone) ''qc_history.db'' = Inr empty_engine
   \<and> (\<exists>e. QualityControlEngine_init FileNotFound ''qc_history.db'' = Inl e)
   \<and> main scipy_linregress_column Unparsable (Table mixed_table) = Inl (SystemExit 1)"
  using config_load_validates_nothing [of negative_config "''qc_history.db''" FileNotFound
      scipy_linregress_column "Table mixed_table"]
    config_load_validates_nothing [of PNone "''qc_history.db''" FileNotFound
      scipy_linregress_column "Table mixed_table"]
  by (simp add: negative_engine_def empty_engine_def)


section \<open>Effects of the two evaluators\<close>

lemma analyze_drift_effect:
  "\<exists>out. \<forall>self.
     analyze_drift linregress self dates vals machine metric =
       (case out of
          Inl e \<Rightarrow> Inl e
        | Inr new \<Rightarrow> Inr (self\<lparr>drift_alerts := drift_alerts self @ new\<rparr>))
     \<and> (case out of Inl e \<Rightarrow> True | Inr new \<Rightarrow> length new \<le> 1)"
proof (cases "length vals < 5")
  case True
  then have "\<forall>self. analyze_drift linregress self dates vals machine metric =
      (case (Inr [] :: error + string list) of
          Inl e \<Rightarrow> Inl e
        | Inr new \<Rightarrow> Inr (self\<lparr>drift_alerts := drift_alerts self @ new\<rparr>))"
    by (simp add: analyze_drift_def)
  then show ?thesis by (intro exI [of _ "Inr []"]) simp
next
  case False
  show ?thesis
  proof (cases "fitted_slope linregress dates vals")
    case (Inl e)
    with False show ?thesis
      by (intro exI [of _ "Inl e"]) (simp add: analyze_drift_def)
  next
    case (Inr res)
    show ?thesis
    proof (cases res)
      case None
      with False Inr show ?thesis
        by (intro exI [of _ "Inr []"]) (simp add: analyze_drift_def)
    next
      case (Some slope)
      show ?thesis
      proof (cases "1 / 10 < \<bar>slope\<bar>")
        case True
        with False Inr Some show ?thesis
          by (intro exI [of _ "Inr [''['' @ machine @ ''] '' @ metric @
                '': Significant Drift detected (Slope: '' @ format_f 3 slope @ ''/day)'']"])
            (simp add: analyze_drift_def Let_def)
      next
        case nd: False
        with False Inr Some show ?thesis
          by (intro exI [of _ "Inr []"]) (simp add: analyze_drift_def)
      qed
    qed
  qed
qed

lemma ramp_alert:
  "analyze_drift scipy_linregress self ramp_dates ramp_values ''CT_Scanner_A'' ''Water_HU'' =
     Inr (self\<lparr>drift_alerts := drift_alerts self @
            [''[CT_Scanner_A] Water_HU: Significant Drift detected (Slope: 1.000/day)'']\<rparr>)"
proof -
  have len: "5 \<le> length ramp_values" by (simp add: ramp_values_def)
  show ?thesis
    using analyze_drift_slope [OF len ramp_slope, of self "''CT_Scanner_A''" "''Water_HU''"]
    by (simp add: format_3_one)
qed

text \<open>
  C9 fails as stated for drift analysis: the call changes the engine's list of alerts,
  and a second call with the same arguments changes it again.
\<close>

theorem drift_analysis_mutates_alerts_counterexample:
  "analyze_drift scipy_linregress ct_engine ramp_dates ramp_values ''CT_Scanner_A'' ''Water_HU'' =
     Inr (ct_engine\<lparr>drift_alerts :=
            [''[CT_Scanner_A] Water_HU: Significant Drift detected (Slope: 1.000/day)'']\<rparr>)
   \<and> analyze_drift scipy_linregress
        (ct_engine\<lparr>drift_alerts :=
            [''[CT_Scanner_A] Water_HU: Significant Drift detected (Slope: 1.000/day)'']\<rparr>)
        ramp_dates ramp_values ''CT_Scanner_A'' ''Water_HU'' =
     Inr (ct_engine\<lparr>drift_alerts :=
            [''[CT_Scanner_A] Water_HU: Significant Drift detected (Slope: 1.000/day)'',
             ''[CT_Scanner_A] Water_HU: Significant Drift detected (Slope: 1.000/day)'']\<rparr>)
   \<and> drift_alerts ct_engine = []"
  by (simp add: ramp_alert) (simp add: ct_engine_def)

text \<open>
  C9, as the code has it. The compliance check is a function of the rule store and its
  arguments: it assigns nothing, and engines with the same rules give the same result.
  Drift analysis is not: what it does to the engine is to append to the shared
  list \<^verbatim>\<open>drift_alerts\<close>. What it appends (nothing, or one message) and whether it
  raises depend on its arguments alone, and every other attribute stays as it was.
\<close>

theorem compliance_pure_drift_appends_alert:
  "(rules e1 = rules e2 \<longrightarrow>
      check_compliance e1 machine metric v = check_compliance e2 machine metric v)
   \<and> (\<exists>out. \<forall>self.
         analyze_drift linregress self dates vals machine metric =
           (case out of
              Inl e \<Rightarrow> Inl e
            | Inr new \<Rightarrow> Inr (self\<lparr>drift_alerts := drift_alerts self @ new\<rparr>))
         \<and> (case out of Inl e \<Rightarrow> True | Inr new \<Rightarrow> length new \<le> 1))"
  using check_compliance_rules_only [of e1 e2 machine metric v]
    analyze_drift_effect [of linregress dates vals machine metric]
  by blast

theorem compliance_pure_drift_appends_alert_witness:
  "rules ct_engine = rules (ct_engine\<lparr>drift_alerts := [''earlier alert'']\<rparr>)
   \<and> check_compliance ct_engine ''CT_Scanner_A'' ''Water_HU'' (PFloat (Finite 7))
       = check_compliance (ct_engine\<lparr>drift_alerts := [''earlier alert'']\<rparr>)
           ''CT_Scanner_A'' ''Water_HU'' (PFloat (Finite 7))
   \<and> (\<exists>out. \<forall>self.
         analyze_drift scipy_linregress self ramp_dates ramp_values
             ''CT_Scanner_A'' ''Water_HU'' =
           (case out of
              Inl e \<Rightarrow> Inl e
            | Inr new \<Rightarrow> Inr (self\<lparr>drift_alerts := drift_alerts self @ new\<rparr>))
         \<and> (case out of Inl e \<Rightarrow> True | Inr new \<Rightarrow> length new \<le> 1))"
  using compliance_pure_drift_appends_alert [of ct_engine
      "ct_engine\<lparr>drift_alerts := [''earlier alert'']\<rparr>" "''CT_Scanner_A''" "''Water_HU''"
      "PFloat (Finite 7)" scipy_linregress ramp_dates ramp_values]
  by simp

end
